theory Spec2Isabelle
  imports Main
begin

section \<open>The request and response context consumed by the CORS gas\<close>

text \<open>
  The gas of \<^verbatim>\<open>src/gases/cors.go\<close> works on an \<^verbatim>\<open>*air.Context\<close>: it reads the
  request header, writes the response header and the status code, and hands the
  context on. The header types of package \<^verbatim>\<open>air\<close> are not among the sources; their
  four operations are modelled below from section 6 of the specification.
\<close>

type_synonym RequestHeader = "string \<rightharpoonup> string"

type_synonym ResponseHeader = "string \<Rightarrow> string list"

record Request =
  Method :: string
  Request_Header :: RequestHeader

record Response =
  Response_Header :: ResponseHeader
  Body :: "string option"

record Context =
  Request :: Request
  Response :: Response
  StatusCode :: int

text \<open>
  A handler has the Go type \<^verbatim>\<open>func(*Context) error\<close>. It mutates the context it is
  given, so the model returns the context together with the error (\<open>None\<close> is
  \<^verbatim>\<open>nil\<close>); a run-time panic is a result of its own.
\<close>

datatype 'e outcome = Returned "'e option" Context | Panicked

type_synonym 'e HandlerFunc = "Context \<Rightarrow> 'e outcome"

type_synonym 'e GasFunc = "'e HandlerFunc \<Rightarrow> 'e HandlerFunc"

type_synonym Skipper = "Context \<Rightarrow> bool"

subsection \<open>Header operations\<close>

definition Header_Get :: "RequestHeader \<Rightarrow> string \<Rightarrow> string" where
  \<comment> \<open>Modelled from the spec: \<^verbatim>\<open>RequestHeader.Get\<close> is declared outside the sources;
      it reads a named request header's value as a string, the empty string when the
      header is absent.\<close>
  "Header_Get h k = (case h k of None \<Rightarrow> [] | Some v \<Rightarrow> v)"

definition Header_Contains :: "RequestHeader \<Rightarrow> string \<Rightarrow> bool" where
  \<comment> \<open>Modelled from the spec: \<^verbatim>\<open>RequestHeader.Contains\<close> is declared outside the
      sources; it tells an absent header from one present with an empty value.\<close>
  "Header_Contains h k = (case h k of None \<Rightarrow> False | Some v \<Rightarrow> True)"

definition Header_Add :: "string \<Rightarrow> string \<Rightarrow> ResponseHeader \<Rightarrow> ResponseHeader" where
  \<comment> \<open>Modelled from the spec: \<^verbatim>\<open>ResponseHeader.Add\<close> is declared outside the sources;
      it appends a value to a response header that may repeat.\<close>
  "Header_Add k v h = h(k := h k @ [v])"

definition Header_Set :: "string \<Rightarrow> string \<Rightarrow> ResponseHeader \<Rightarrow> ResponseHeader" where
  \<comment> \<open>Modelled from the spec: \<^verbatim>\<open>ResponseHeader.Set\<close> is declared outside the sources;
      it overwrites a response header with a single value.\<close>
  "Header_Set k v h = h(k := [v])"

definition res_Header_Add :: "string \<Rightarrow> string \<Rightarrow> Context \<Rightarrow> Context" where
  \<comment> \<open>\<^verbatim>\<open>res.Header.Add(k, v)\<close> with \<^verbatim>\<open>res := c.Response\<close>\<close>
  "res_Header_Add k v c =
     c\<lparr>Response := (Response c)\<lparr>Response_Header := Header_Add k v (Response_Header (Response c))\<rparr>\<rparr>"

definition res_Header_Set :: "string \<Rightarrow> string \<Rightarrow> Context \<Rightarrow> Context" where
  \<comment> \<open>\<^verbatim>\<open>res.Header.Set(k, v)\<close> with \<^verbatim>\<open>res := c.Response\<close>\<close>
  "res_Header_Set k v c =
     c\<lparr>Response := (Response c)\<lparr>Response_Header := Header_Set k v (Response_Header (Response c))\<rparr>\<rparr>"

definition res_Header :: "Context \<Rightarrow> string \<Rightarrow> string list" where
  \<comment> \<open>the values a response header holds, in the order they were added\<close>
  "res_Header c k = Response_Header (Response c) k"

definition NoContent :: "'e HandlerFunc" where
  \<comment> \<open>Modelled from the spec: \<^verbatim>\<open>Context.NoContent\<close> is declared outside the sources;
      it finalizes an empty body under the status code the context holds and
      reports no error.\<close>
  "NoContent c = Returned None (c\<lparr>Response := (Response c)\<lparr>Body := Some []\<rparr>\<rparr>)"

subsection \<open>Constants of package air and of the Go library\<close>

text \<open>
  Modelled from the spec: the header-name and method-name constants of package
  \<^verbatim>\<open>air\<close> are declared outside the sources; the specification writes their values
  out. \<^verbatim>\<open>http.StatusNoContent\<close> is 204.
\<close>

definition HeaderOrigin :: string where
  "HeaderOrigin = ''Origin''"

definition HeaderVary :: string where
  "HeaderVary = ''Vary''"

definition HeaderAccessControlRequestMethod :: string where
  "HeaderAccessControlRequestMethod = ''Access-Control-Request-Method''"

definition HeaderAccessControlRequestHeaders :: string where
  "HeaderAccessControlRequestHeaders = ''Access-Control-Request-Headers''"

definition HeaderAccessControlAllowOrigin :: string where
  "HeaderAccessControlAllowOrigin = ''Access-Control-Allow-Origin''"

definition HeaderAccessControlAllowMethods :: string where
  "HeaderAccessControlAllowMethods = ''Access-Control-Allow-Methods''"

definition HeaderAccessControlAllowHeaders :: string where
  "HeaderAccessControlAllowHeaders = ''Access-Control-Allow-Headers''"

definition HeaderAccessControlAllowCredentials :: string where
  "HeaderAccessControlAllowCredentials = ''Access-Control-Allow-Credentials''"

definition HeaderAccessControlExposeHeaders :: string where
  "HeaderAccessControlExposeHeaders = ''Access-Control-Expose-Headers''"

definition HeaderAccessControlMaxAge :: string where
  "HeaderAccessControlMaxAge = ''Access-Control-Max-Age''"

definition GET :: string where
  "GET = ''GET''"

definition POST :: string where
  "POST = ''POST''"

definition PUT :: string where
  "PUT = ''PUT''"

definition DELETE :: string where
  "DELETE = ''DELETE''"

definition OPTIONS :: string where
  "OPTIONS = ''OPTIONS''"

definition StatusNoContent :: int where
  "StatusNoContent = 204"

subsection \<open>\<^verbatim>\<open>strings.Join\<close> and \<^verbatim>\<open>strconv.Itoa\<close>\<close>

fun Join :: "string list \<Rightarrow> string \<Rightarrow> string" where
  "Join [] sep = []"
| "Join [x] sep = x"
| "Join (x # y # ys) sep = x @ sep @ Join (y # ys) sep"

definition digit_char :: "nat \<Rightarrow> char" where
  "digit_char d = ''0123456789'' ! (d mod 10)"

fun nat_dec :: "nat \<Rightarrow> string" where
  "nat_dec n = (if n < 10 then [digit_char n] else nat_dec (n div 10) @ [digit_char (n mod 10)])"

declare nat_dec.simps [simp del]

definition Itoa :: "int \<Rightarrow> string" where
  \<comment> \<open>the decimal text of a Go \<^verbatim>\<open>int\<close>; no arithmetic is done on the value, so
      its width plays no part\<close>
  "Itoa i = (if i < 0 then CHR ''-'' # nat_dec (nat (- i)) else nat_dec (nat i))"

section \<open>The CORS gas\<close>

record CORSConfig =
  Skipper :: "Skipper option"
  AllowOrigins :: "string list"
  AllowMethods :: "string list"
  AllowHeaders :: "string list"
  AllowCredentials :: bool
  ExposeHeaders :: "string list"
  MaxAge :: int

text \<open>
  \<^verbatim>\<open>Skipper\<close> is a Go function value and may be \<^verbatim>\<open>nil\<close> (\<open>None\<close>); a slice of
  length 0, \<^verbatim>\<open>nil\<close> or not, is the empty list.
\<close>

definition defaultSkipper :: Skipper where
  \<comment> \<open>Modelled from the spec: \<^verbatim>\<open>defaultSkipper\<close> is declared in a file of package
      \<^verbatim>\<open>gases\<close> outside the sources; the documented default of a field other than
      the origin and method lists is empty, zero or false.\<close>
  "defaultSkipper c = False"

definition DefaultCORSConfig :: CORSConfig where
  "DefaultCORSConfig =
     \<lparr>Skipper = Some defaultSkipper,
      AllowOrigins = [''*''],
      AllowMethods = [GET, POST, PUT, DELETE],
      AllowHeaders = [],
      AllowCredentials = False,
      ExposeHeaders = [],
      MaxAge = 0\<rparr>"

definition with_defaults :: "CORSConfig \<Rightarrow> CORSConfig" where
  \<comment> \<open>the block under \<^verbatim>\<open>// Defaults\<close> of \<^verbatim>\<open>CORSWithConfig\<close>: three assignments to
      the function's own copy of the configuration\<close>
  "with_defaults config =
     (let config = (if Skipper config = None
                    then config\<lparr>Skipper := Skipper DefaultCORSConfig\<rparr> else config);
          config = (if length (AllowOrigins config) = 0
                    then config\<lparr>AllowOrigins := AllowOrigins DefaultCORSConfig\<rparr> else config);
          config = (if length (AllowMethods config) = 0
                    then config\<lparr>AllowMethods := AllowMethods DefaultCORSConfig\<rparr> else config)
      in config)"

fun check_allowed_origins :: "string list \<Rightarrow> string \<Rightarrow> string \<Rightarrow> string" where
  \<comment> \<open>the loop under \<^verbatim>\<open>// Check allowed origins\<close>; the third argument is the
      variable \<^verbatim>\<open>allowedOrigin\<close>, which the caller starts at the empty string\<close>
  "check_allowed_origins [] origin allowedOrigin = allowedOrigin"
| "check_allowed_origins (o' # os) origin allowedOrigin =
     (if o' = ''*'' \<or> o' = origin then o'
      else check_allowed_origins os origin allowedOrigin)"

subsection \<open>Statements with early return\<close>

text \<open>
  The handler's body is a sequence of statements, some of which return. A statement
  maps the context to \<open>Inl r\<close> when it returns \<open>r\<close> from the handler, and to
  \<open>Inr c'\<close> when control goes on to the next statement with the context \<open>c'\<close>.
  Statements written after one that always returns are kept in the sequence, as
  they are in the source.
\<close>

type_synonym 'e stmt = "Context \<Rightarrow> 'e outcome + Context"

definition exec :: "(Context \<Rightarrow> Context) \<Rightarrow> 'e stmt" where
  "exec f c = Inr (f c)"

definition return_call :: "'e HandlerFunc \<Rightarrow> 'e stmt" where
  \<comment> \<open>\<^verbatim>\<open>return h(c)\<close>\<close>
  "return_call h c = Inl (h c)"

fun run_block :: "'e stmt list \<Rightarrow> 'e stmt" where
  "run_block [] c = Inr c"
| "run_block (s # ss) c = (case s c of Inl r \<Rightarrow> Inl r | Inr c' \<Rightarrow> run_block ss c')"

definition if_then :: "bool \<Rightarrow> 'e stmt list \<Rightarrow> 'e stmt" where
  "if_then b ss c = (if b then run_block ss c else Inr c)"

definition if_then_else :: "bool \<Rightarrow> 'e stmt list \<Rightarrow> 'e stmt list \<Rightarrow> 'e stmt" where
  "if_then_else b ss1 ss2 c = (if b then run_block ss1 c else run_block ss2 c)"

fun run_body :: "'e stmt list \<Rightarrow> 'e HandlerFunc \<Rightarrow> 'e HandlerFunc" where
  \<comment> \<open>a function body: statements, closed by \<^verbatim>\<open>return final(c)\<close>\<close>
  "run_body [] final c = final c"
| "run_body (s # ss) final c =
     (case s c of Inl r \<Rightarrow> r | Inr c' \<Rightarrow> run_body ss final c')"

subsection \<open>The handler\<close>

definition simple_request ::
  "CORSConfig \<Rightarrow> string \<Rightarrow> bool \<Rightarrow> string \<Rightarrow> 'e HandlerFunc \<Rightarrow> 'e stmt list" where
  \<comment> \<open>the statements under \<^verbatim>\<open>// Simple request\<close>\<close>
  "simple_request config exposeHeaders originSet allowedOrigin next' =
     [exec (res_Header_Add HeaderVary HeaderOrigin),
      if_then (\<not> originSet \<or> allowedOrigin = []) [return_call next'],
      exec (res_Header_Set HeaderAccessControlAllowOrigin allowedOrigin),
      if_then (AllowCredentials config)
        [exec (res_Header_Set HeaderAccessControlAllowCredentials ''true'')],
      if_then (exposeHeaders \<noteq> [])
        [exec (res_Header_Set HeaderAccessControlExposeHeaders exposeHeaders)],
      return_call next']"

definition preflight_request ::
  "CORSConfig \<Rightarrow> string \<Rightarrow> string \<Rightarrow> string \<Rightarrow> bool \<Rightarrow> string \<Rightarrow> 'e HandlerFunc \<Rightarrow> 'e stmt list" where
  \<comment> \<open>the statements under \<^verbatim>\<open>// Preflight request\<close>, up to the assignment of the
      status code; \<^verbatim>\<open>return c.NoContent()\<close> closes the body\<close>
  "preflight_request config allowMethods allowHeaders maxAge originSet allowedOrigin next' =
     [exec (res_Header_Add HeaderVary HeaderOrigin),
      exec (res_Header_Add HeaderVary HeaderAccessControlRequestMethod),
      exec (res_Header_Add HeaderVary HeaderAccessControlRequestHeaders),
      if_then (\<not> originSet \<or> allowedOrigin = []) [return_call next'],
      exec (res_Header_Set HeaderAccessControlAllowOrigin allowedOrigin),
      exec (res_Header_Set HeaderAccessControlAllowMethods allowMethods),
      if_then (AllowCredentials config)
        [exec (res_Header_Set HeaderAccessControlAllowCredentials ''true'')],
      if_then_else (allowHeaders \<noteq> [])
        [exec (res_Header_Set HeaderAccessControlAllowHeaders allowHeaders)]
        [(\<lambda>c. let h = Header_Get (Request_Header (Request c)) HeaderAccessControlRequestHeaders
              in if_then (h \<noteq> []) [exec (res_Header_Set HeaderAccessControlAllowHeaders h)] c)],
      if_then (MaxAge config > 0) [exec (res_Header_Set HeaderAccessControlMaxAge maxAge)],
      exec (\<lambda>c. c\<lparr>StatusCode := StatusNoContent\<rparr>)]"

definition cors_handler ::
  "CORSConfig \<Rightarrow> string \<Rightarrow> string \<Rightarrow> string \<Rightarrow> string \<Rightarrow> 'e GasFunc" where
  \<comment> \<open>the closure \<^verbatim>\<open>CORSWithConfig\<close> returns, its captured variables as arguments;
      calling a \<^verbatim>\<open>nil\<close> \<^verbatim>\<open>Skipper\<close> panics\<close>
  "cors_handler config allowMethods allowHeaders exposeHeaders maxAge next' c =
     (case Skipper config of
        None \<Rightarrow> Panicked
      | Some skip \<Rightarrow>
          if skip c then next' c
          else
            let req = Request c;
                origin = Header_Get (Request_Header req) HeaderOrigin;
                originSet = Header_Contains (Request_Header req) HeaderOrigin;
                allowedOrigin = check_allowed_origins (AllowOrigins config) origin []
            in run_body
                 (simple_request config exposeHeaders originSet allowedOrigin next' @
                  preflight_request config allowMethods allowHeaders maxAge
                    originSet allowedOrigin next')
                 NoContent c)"

definition CORSWithConfig :: "CORSConfig \<Rightarrow> 'e GasFunc" where
  "CORSWithConfig config =
     (let config = with_defaults config;
          allowMethods = Join (AllowMethods config) '','';
          allowHeaders = Join (AllowHeaders config) '','';
          exposeHeaders = Join (ExposeHeaders config) '','';
          maxAge = Itoa (MaxAge config)
      in cors_handler config allowMethods allowHeaders exposeHeaders maxAge)"

definition CORS :: "'e GasFunc" where
  "CORS = CORSWithConfig DefaultCORSConfig"

section \<open>Observations and example inputs\<close>

definition simple_response ::
  "CORSConfig \<Rightarrow> string \<Rightarrow> bool \<Rightarrow> string \<Rightarrow> Context \<Rightarrow> Context" where
  \<comment> \<open>what the statements of \<open>simple_request\<close> have done to the context by the
      time one of them returns; a device of the proofs below\<close>
  "simple_response config exposeHeaders originSet allowedOrigin c =
     (let c1 = res_Header_Add HeaderVary HeaderOrigin c
      in if \<not> originSet \<or> allowedOrigin = [] then c1
         else
           let c2 = res_Header_Set HeaderAccessControlAllowOrigin allowedOrigin c1;
               c3 = (if AllowCredentials config
                     then res_Header_Set HeaderAccessControlAllowCredentials ''true'' c2
                     else c2)
           in if exposeHeaders \<noteq> []
              then res_Header_Set HeaderAccessControlExposeHeaders exposeHeaders c3
              else c3)"

definition handed_on :: "CORSConfig \<Rightarrow> Context \<Rightarrow> Context" where
  \<comment> \<open>the context the gas built from \<open>cfg\<close> passes to the next handler\<close>
  "handed_on cfg c =
     (let config = with_defaults cfg
      in case Skipper config of
           None \<Rightarrow> c
         | Some skip \<Rightarrow>
             if skip c then c
             else simple_response config (Join (ExposeHeaders config) '','')
                    (Header_Contains (Request_Header (Request c)) HeaderOrigin)
                    (check_allowed_origins (AllowOrigins config)
                       (Header_Get (Request_Header (Request c)) HeaderOrigin) []) c)"

fun response_header :: "'e outcome \<Rightarrow> string \<Rightarrow> string list" where
  "response_header (Returned e c) k = res_Header c k"
| "response_header Panicked k = []"

fun response_status :: "'e outcome \<Rightarrow> int option" where
  "response_status (Returned e c) = Some (StatusCode c)"
| "response_status Panicked = None"

fun response_body :: "'e outcome \<Rightarrow> string option" where
  "response_body (Returned e c) = Body (Response c)"
| "response_body Panicked = None"

definition app_handler :: "string HandlerFunc" where
  \<comment> \<open>an application handler at the end of the chain: it writes the body \<open>app\<close>\<close>
  "app_handler c = Returned None (c\<lparr>Response := (Response c)\<lparr>Body := Some ''app''\<rparr>\<rparr>)"

definition request_with :: "string \<Rightarrow> (string \<times> string) list \<Rightarrow> Context" where
  \<comment> \<open>a fresh context for a request with the given method and headers: no response
      header yet, nothing written, status 200\<close>
  "request_with m hs =
     \<lparr>Request = \<lparr>Method = m, Request_Header = map_of hs\<rparr>,
      Response = \<lparr>Response_Header = (\<lambda>k. []), Body = None\<rparr>,
      StatusCode = 200\<rparr>"

definition config_with_origins :: "string list \<Rightarrow> CORSConfig" where
  \<comment> \<open>the Go struct literal \<^verbatim>\<open>CORSConfig{AllowOrigins: os}\<close>\<close>
  "config_with_origins os =
     \<lparr>Skipper = None, AllowOrigins = os, AllowMethods = [], AllowHeaders = [],
      AllowCredentials = False, ExposeHeaders = [], MaxAge = 0\<rparr>"

definition skip_options :: Skipper where
  \<comment> \<open>a skip predicate that skips the gas on OPTIONS requests\<close>
  "skip_options c = (Method (Request c) = OPTIONS)"

section \<open>Properties\<close>

lemmas header_names =
  HeaderOrigin_def HeaderVary_def HeaderAccessControlRequestMethod_def
  HeaderAccessControlRequestHeaders_def HeaderAccessControlAllowOrigin_def
  HeaderAccessControlAllowMethods_def HeaderAccessControlAllowHeaders_def
  HeaderAccessControlAllowCredentials_def HeaderAccessControlExposeHeaders_def
  HeaderAccessControlMaxAge_def

lemmas header_ops =
  res_Header_def res_Header_Add_def res_Header_Set_def Header_Add_def Header_Set_def

lemmas example_inputs =
  request_with_def config_with_origins_def app_handler_def Header_Get_def Header_Contains_def
  defaultSkipper_def

subsection \<open>The simple-request statements always return\<close>

lemma run_body_append_Inl:
  "run_block ss c = Inl r \<Longrightarrow> run_body (ss @ rest) final c = r"
  by (induction ss arbitrary: c) (auto split: sum.splits)

lemma simple_request_returns:
  "run_block (simple_request config eh os ao nxt) c =
     Inl (nxt (simple_response config eh os ao c))"
  by (simp add: simple_request_def simple_response_def exec_def if_then_def return_call_def Let_def)

lemma Skipper_with_defaults:
  "Skipper (with_defaults cfg) =
     Some (case Skipper cfg of None \<Rightarrow> defaultSkipper | Some p \<Rightarrow> p)"
  by (cases "Skipper cfg") (simp_all add: with_defaults_def DefaultCORSConfig_def Let_def)

lemma with_defaults_fields:
  "AllowOrigins (with_defaults cfg) = (if AllowOrigins cfg = [] then [''*''] else AllowOrigins cfg)"
  "AllowMethods (with_defaults cfg) =
     (if AllowMethods cfg = [] then [''GET'', ''POST'', ''PUT'', ''DELETE''] else AllowMethods cfg)"
  "AllowHeaders (with_defaults cfg) = AllowHeaders cfg"
  "AllowCredentials (with_defaults cfg) = AllowCredentials cfg"
  "ExposeHeaders (with_defaults cfg) = ExposeHeaders cfg"
  "MaxAge (with_defaults cfg) = MaxAge cfg"
  by (simp_all add: with_defaults_def DefaultCORSConfig_def Let_def GET_def POST_def PUT_def
      DELETE_def)

lemma CORSWithConfig_hands_on:
  "CORSWithConfig cfg nxt c = nxt (handed_on cfg c)"
  by (simp add: CORSWithConfig_def cors_handler_def handed_on_def Let_def
      Skipper_with_defaults run_body_append_Inl [OF simple_request_returns])

lemma handed_on_skipped:
  "Skipper (with_defaults cfg) = Some skip \<Longrightarrow> skip c \<Longrightarrow> handed_on cfg c = c"
  by (simp add: handed_on_def Let_def)

lemma handed_on_not_skipped:
  "Skipper (with_defaults cfg) = Some skip \<Longrightarrow> \<not> skip c \<Longrightarrow>
   handed_on cfg c =
     simple_response (with_defaults cfg) (Join (ExposeHeaders (with_defaults cfg)) '','')
       (Header_Contains (Request_Header (Request c)) HeaderOrigin)
       (check_allowed_origins (AllowOrigins (with_defaults cfg))
          (Header_Get (Request_Header (Request c)) HeaderOrigin) []) c"
  by (simp add: handed_on_def Let_def)

subsection \<open>What the simple-request statements do to the response\<close>

lemma simple_response_frame:
  "StatusCode (simple_response config eh os ao c) = StatusCode c"
  "Request (simple_response config eh os ao c) = Request c"
  "Body (Response (simple_response config eh os ao c)) = Body (Response c)"
  by (simp_all add: simple_response_def res_Header_Add_def res_Header_Set_def Let_def)

lemma simple_response_Vary:
  "res_Header (simple_response config eh os ao c) ''Vary'' = res_Header c ''Vary'' @ [''Origin'']"
  by (simp add: simple_response_def Let_def header_ops header_names)

lemma simple_response_AllowOrigin:
  "res_Header (simple_response config eh os ao c) ''Access-Control-Allow-Origin'' =
     (if os \<and> ao \<noteq> [] then [ao] else res_Header c ''Access-Control-Allow-Origin'')"
  by (simp add: simple_response_def Let_def header_ops header_names)

lemma simple_response_AllowCredentials:
  "res_Header (simple_response config eh os ao c) ''Access-Control-Allow-Credentials'' =
     (if os \<and> ao \<noteq> [] \<and> AllowCredentials config then [''true'']
      else res_Header c ''Access-Control-Allow-Credentials'')"
  by (simp add: simple_response_def Let_def header_ops header_names)

lemma simple_response_other:
  "k \<noteq> ''Vary'' \<Longrightarrow> k \<noteq> ''Access-Control-Allow-Origin'' \<Longrightarrow>
   k \<noteq> ''Access-Control-Allow-Credentials'' \<Longrightarrow> k \<noteq> ''Access-Control-Expose-Headers'' \<Longrightarrow>
   res_Header (simple_response config eh os ao c) k = res_Header c k"
  by (simp add: simple_response_def Let_def header_ops header_names)

lemma simple_response_unmatched:
  "\<not> os \<or> ao = [] \<Longrightarrow>
   simple_response config eh os ao c = res_Header_Add ''Vary'' ''Origin'' c"
  by (simp add: simple_response_def header_names)

subsection \<open>The origin loop\<close>

lemma check_allowed_origins_find:
  "check_allowed_origins os origin a =
     (case find (\<lambda>e. e = ''*'' \<or> e = origin) os of None \<Rightarrow> a | Some e \<Rightarrow> e)"
  by (induction os) auto

lemma check_allowed_origins_no_match:
  "\<forall>e \<in> set os. e \<noteq> ''*'' \<and> e \<noteq> origin \<Longrightarrow> check_allowed_origins os origin a = a"
  by (induction os) auto

lemma find_wildcard_first:
  "''*'' \<in> set os \<Longrightarrow> [] \<notin> set (takeWhile (\<lambda>e. e \<noteq> ''*'') os) \<Longrightarrow>
   find (\<lambda>e. e = ''*'' \<or> e = []) os = Some ''*''"
  by (induction os) (auto split: if_splits)

lemma Itoa_600: "Itoa 600 = ''600''"
  by (simp add: Itoa_def nat_dec.simps digit_char_def)

subsection \<open>The skip predicate\<close>

text \<open>
  C7. When the skip predicate in force answers true, the gas calls the next handler
  on the very context it received, whatever the request's method is: no response
  header, status code or body has been touched.
\<close>

theorem skipped_request_untouched:
  assumes "Skipper (with_defaults cfg) = Some skip" and "skip c"
  shows "CORSWithConfig cfg nxt c = nxt c"
  using assms by (simp add: CORSWithConfig_hands_on handed_on_skipped)

theorem skipped_request_untouched_witness:
  "Skipper (with_defaults ((config_with_origins [''*''])\<lparr>Skipper := Some skip_options\<rparr>))
     = Some skip_options
   \<and> skip_options (request_with OPTIONS [(''Origin'', ''https://a.example'')])
   \<and> CORSWithConfig ((config_with_origins [''*''])\<lparr>Skipper := Some skip_options\<rparr>)
        app_handler (request_with OPTIONS [(''Origin'', ''https://a.example'')])
     = app_handler (request_with OPTIONS [(''Origin'', ''https://a.example'')])"
  using skipped_request_untouched
    [of "(config_with_origins [''*''])\<lparr>Skipper := Some skip_options\<rparr>" skip_options
        "request_with OPTIONS [(''Origin'', ''https://a.example'')]" app_handler]
  by (simp add: Skipper_with_defaults skip_options_def example_inputs)

subsection \<open>The Vary header\<close>

text \<open>
  C3. For a request the skip predicate does not skip, the gas calls the next handler
  on a context whose response header Vary holds one more value than before, the
  value Origin, appended last. Nothing is assumed about the request's Origin header
  or about the configured origins.
\<close>

theorem vary_origin_added:
  assumes "Skipper (with_defaults cfg) = Some skip" and "\<not> skip c"
  shows "\<exists>c'. (\<forall>nxt. CORSWithConfig cfg nxt c = nxt c')
            \<and> res_Header c' ''Vary'' = res_Header c ''Vary'' @ [''Origin'']"
proof -
  have "\<forall>nxt. CORSWithConfig cfg nxt c = nxt (handed_on cfg c)"
    by (simp add: CORSWithConfig_hands_on)
  moreover have "res_Header (handed_on cfg c) ''Vary'' = res_Header c ''Vary'' @ [''Origin'']"
    using assms by (simp add: handed_on_not_skipped simple_response_Vary)
  ultimately show ?thesis by blast
qed

theorem vary_origin_added_witness:
  "Skipper (with_defaults (config_with_origins [''https://a.example''])) = Some defaultSkipper
   \<and> \<not> defaultSkipper (request_with GET [])
   \<and> (\<exists>c'. (\<forall>nxt. CORSWithConfig (config_with_origins [''https://a.example'']) nxt
                      (request_with GET []) = nxt c')
          \<and> res_Header c' ''Vary'' = [''Origin''])"
  using vary_origin_added
    [of "config_with_origins [''https://a.example'']" defaultSkipper "request_with GET []"]
  by (simp add: Skipper_with_defaults example_inputs res_Header_def)

subsection \<open>Requests without a matching origin\<close>

text \<open>
  C5. For a request that is not skipped and whose Origin header is absent, or whose
  Origin value equals no configured origin while no configured origin is the
  wildcard, the gas calls the next handler on the received context with the value
  Origin appended to Vary and nothing else changed: every other response header, the
  status code and the body are as they were. The request's method plays no part, so
  an OPTIONS request with an unmatched origin reaches the next handler as well.
\<close>

theorem unmatched_request_passes_through:
  assumes "Skipper (with_defaults cfg) = Some skip" and "\<not> skip c"
    and "\<not> Header_Contains (Request_Header (Request c)) ''Origin'' \<or>
         (\<forall>e \<in> set (AllowOrigins (with_defaults cfg)).
            e \<noteq> ''*'' \<and> e \<noteq> Header_Get (Request_Header (Request c)) ''Origin'')"
  shows "CORSWithConfig cfg nxt c = nxt (res_Header_Add ''Vary'' ''Origin'' c)
       \<and> (\<forall>k. k \<noteq> ''Vary'' \<longrightarrow> res_Header (res_Header_Add ''Vary'' ''Origin'' c) k = res_Header c k)
       \<and> StatusCode (res_Header_Add ''Vary'' ''Origin'' c) = StatusCode c
       \<and> Body (Response (res_Header_Add ''Vary'' ''Origin'' c)) = Body (Response c)"
proof -
  let ?origin = "Header_Get (Request_Header (Request c)) HeaderOrigin"
  let ?originSet = "Header_Contains (Request_Header (Request c)) HeaderOrigin"
  have "\<not> ?originSet \<or> check_allowed_origins (AllowOrigins (with_defaults cfg)) ?origin [] = []"
    using assms(3) check_allowed_origins_no_match [of "AllowOrigins (with_defaults cfg)" ?origin "[]"]
    by (auto simp: HeaderOrigin_def)
  then have "handed_on cfg c = res_Header_Add ''Vary'' ''Origin'' c"
    using assms(1,2) by (simp add: handed_on_not_skipped simple_response_unmatched)
  then show ?thesis
    by (simp add: CORSWithConfig_hands_on header_ops)
qed

theorem unmatched_request_passes_through_witness:
  "Skipper (with_defaults (config_with_origins [''https://a.example''])) = Some defaultSkipper
   \<and> \<not> defaultSkipper (request_with OPTIONS [(''Origin'', ''https://b.example'')])
   \<and> Header_Contains
       (Request_Header (Request (request_with OPTIONS [(''Origin'', ''https://b.example'')])))
       ''Origin''
   \<and> AllowOrigins (with_defaults (config_with_origins [''https://a.example'']))
       = [''https://a.example'']
   \<and> Header_Get
       (Request_Header (Request (request_with OPTIONS [(''Origin'', ''https://b.example'')])))
       ''Origin'' = ''https://b.example''
   \<and> CORSWithConfig (config_with_origins [''https://a.example'']) app_handler
        (request_with OPTIONS [(''Origin'', ''https://b.example'')])
     = app_handler
        (res_Header_Add ''Vary'' ''Origin''
           (request_with OPTIONS [(''Origin'', ''https://b.example'')]))"
  using unmatched_request_passes_through
    [of "config_with_origins [''https://a.example'']" defaultSkipper
        "request_with OPTIONS [(''Origin'', ''https://b.example'')]" app_handler]
  by (simp add: Skipper_with_defaults with_defaults_fields request_with_def
      config_with_origins_def Header_Get_def Header_Contains_def defaultSkipper_def)

subsection \<open>Origin matching\<close>

text \<open>
  C4. The origin loop walks the configured origins in order and leaves in the
  matched origin the first entry that is the wildcard or equals the request's Origin
  value (equality of strings, byte by byte); when no entry is such, the matched
  origin keeps its initial value, the empty string. For a request that is not
  skipped, the gas calls the next handler on a context whose
  Access-Control-Allow-Origin header holds exactly that entry whenever the gas sets
  it, which it does when the Origin header is present and the entry is not the empty
  string; otherwise the header is as it was.
\<close>

theorem allowed_origin_is_first_match:
  assumes "Skipper (with_defaults cfg) = Some skip" and "\<not> skip c"
  shows "check_allowed_origins os origin [] =
           (case find (\<lambda>e. e = ''*'' \<or> e = origin) os of None \<Rightarrow> [] | Some e \<Rightarrow> e)
       \<and> (\<exists>c'. (\<forall>nxt. CORSWithConfig cfg nxt c = nxt c')
            \<and> res_Header c' ''Access-Control-Allow-Origin'' =
                (let matched =
                   (case find (\<lambda>e. e = ''*'' \<or> e = Header_Get (Request_Header (Request c)) ''Origin'')
                           (AllowOrigins (with_defaults cfg))
                    of None \<Rightarrow> [] | Some e \<Rightarrow> e)
                 in if Header_Contains (Request_Header (Request c)) ''Origin'' \<and> matched \<noteq> []
                    then [matched]
                    else res_Header c ''Access-Control-Allow-Origin''))"
proof -
  have "\<forall>nxt. CORSWithConfig cfg nxt c = nxt (handed_on cfg c)"
    by (simp add: CORSWithConfig_hands_on)
  moreover have "res_Header (handed_on cfg c) ''Access-Control-Allow-Origin'' =
      (let matched =
         (case find (\<lambda>e. e = ''*'' \<or> e = Header_Get (Request_Header (Request c)) ''Origin'')
                 (AllowOrigins (with_defaults cfg))
          of None \<Rightarrow> [] | Some e \<Rightarrow> e)
       in if Header_Contains (Request_Header (Request c)) ''Origin'' \<and> matched \<noteq> []
          then [matched]
          else res_Header c ''Access-Control-Allow-Origin'')"
    using assms
    by (simp add: handed_on_not_skipped simple_response_AllowOrigin check_allowed_origins_find
        HeaderOrigin_def Let_def)
  ultimately show ?thesis
    by (simp only: check_allowed_origins_find) blast
qed

theorem allowed_origin_is_first_match_witness:
  "Skipper (with_defaults (config_with_origins [''https://a.example'', ''*''])) = Some defaultSkipper
   \<and> \<not> defaultSkipper (request_with GET [(''Origin'', ''https://a.example'')])
   \<and> check_allowed_origins [''https://a.example'', ''*''] ''https://b.example'' [] = ''*''
   \<and> (\<exists>c'. (\<forall>nxt. CORSWithConfig (config_with_origins [''https://a.example'', ''*'']) nxt
                     (request_with GET [(''Origin'', ''https://a.example'')]) = nxt c')
          \<and> res_Header c' ''Access-Control-Allow-Origin'' = [''https://a.example''])"
  using allowed_origin_is_first_match
    [of "config_with_origins [''https://a.example'', ''*'']" defaultSkipper
        "request_with GET [(''Origin'', ''https://a.example'')]"
        "[''https://a.example'', ''*'']" "''https://b.example''"]
  by (simp add: Skipper_with_defaults with_defaults_fields request_with_def
      config_with_origins_def Header_Get_def Header_Contains_def defaultSkipper_def)

subsection \<open>Defaults of the configuration\<close>

text \<open>
  C6. \<open>CORSWithConfig\<close> replaces an empty list of allowed origins by the list holding
  the wildcard alone and an empty list of allowed methods by GET, POST, PUT, DELETE,
  and keeps a list that is not empty; the handler it returns is closed over the
  configuration so completed, whose origin and method lists are therefore never
  empty.
\<close>

theorem defaults_fill_empty_lists:
  "AllowOrigins (with_defaults cfg) = (if AllowOrigins cfg = [] then [''*''] else AllowOrigins cfg)
   \<and> AllowMethods (with_defaults cfg) =
       (if AllowMethods cfg = [] then [''GET'', ''POST'', ''PUT'', ''DELETE'']
        else AllowMethods cfg)
   \<and> AllowOrigins (with_defaults cfg) \<noteq> []
   \<and> AllowMethods (with_defaults cfg) \<noteq> []
   \<and> CORSWithConfig cfg =
       cors_handler (with_defaults cfg)
         (Join (AllowMethods (with_defaults cfg)) '','')
         (Join (AllowHeaders (with_defaults cfg)) '','')
         (Join (ExposeHeaders (with_defaults cfg)) '','')
         (Itoa (MaxAge (with_defaults cfg)))"
  by (simp add: with_defaults_fields CORSWithConfig_def Let_def)

theorem defaults_fill_empty_lists_witness:
  "AllowOrigins (with_defaults (config_with_origins [])) = [''*'']
   \<and> AllowMethods (with_defaults (config_with_origins [])) = [''GET'', ''POST'', ''PUT'', ''DELETE'']
   \<and> Join (AllowMethods (with_defaults (config_with_origins []))) '','' = ''GET,POST,PUT,DELETE''
   \<and> CORSWithConfig (config_with_origins []) =
       cors_handler (with_defaults (config_with_origins [])) ''GET,POST,PUT,DELETE'' [] [] ''0''"
  using defaults_fill_empty_lists [of "config_with_origins []"]
  by (simp add: config_with_origins_def with_defaults_fields Itoa_def nat_dec.simps digit_char_def)

subsection \<open>The statements after the simple-request path\<close>

lemma simple_request_then_anything:
  "run_body (simple_request config eh os ao nxt @ rest) final c =
     nxt (simple_response config eh os ao c)"
  by (rule run_body_append_Inl [OF simple_request_returns])

lemma preflight_request_answers:
  assumes "originSet" and "ao \<noteq> []"
  shows "\<exists>c'. run_body (preflight_request config am ah ma originSet ao nxt) NoContent c
                = Returned None c'
          \<and> StatusCode c' = 204 \<and> Body (Response c') = Some []
          \<and> res_Header c' ''Access-Control-Allow-Origin'' = [ao]
          \<and> res_Header c' ''Access-Control-Allow-Methods'' = [am]
          \<and> res_Header c' ''Access-Control-Allow-Headers'' =
              (if ah \<noteq> [] then [ah]
               else if Header_Get (Request_Header (Request c)) ''Access-Control-Request-Headers'' \<noteq> []
                    then [Header_Get (Request_Header (Request c)) ''Access-Control-Request-Headers'']
                    else res_Header c ''Access-Control-Allow-Headers'')
          \<and> res_Header c' ''Access-Control-Max-Age'' =
              (if MaxAge config > 0 then [ma] else res_Header c ''Access-Control-Max-Age'')"
  using assms
  by (simp add: preflight_request_def exec_def if_then_def if_then_else_def return_call_def
      NoContent_def StatusNoContent_def Let_def header_ops header_names)

text \<open>
  C2. Whatever the configuration and the request, the gas returns what the next
  handler returns on a context whose status code and body are those it received: it
  never assigns 204 and never answers through \<open>NoContent\<close>. The simple-request
  statements return on every path, so the result of the body is the same whatever
  statements follow them and whatever call closes the body.
\<close>

theorem preflight_path_unreachable:
  "(\<exists>c'. (\<forall>nxt. CORSWithConfig cfg nxt c = nxt c')
        \<and> StatusCode c' = StatusCode c \<and> Body (Response c') = Body (Response c))
   \<and> (\<exists>r. \<forall>rest final.
        run_body (simple_request config exposeHeaders originSet allowedOrigin nxt' @ rest) final c0 = r)"
proof -
  have "\<forall>nxt. CORSWithConfig cfg nxt c = nxt (handed_on cfg c)"
    by (simp add: CORSWithConfig_hands_on)
  moreover have "StatusCode (handed_on cfg c) = StatusCode c"
    by (simp add: handed_on_def Let_def simple_response_frame split: option.split)
  moreover have "Body (Response (handed_on cfg c)) = Body (Response c)"
    by (simp add: handed_on_def Let_def simple_response_frame split: option.split)
  ultimately have "\<exists>c'. (\<forall>nxt. CORSWithConfig cfg nxt c = nxt c')
        \<and> StatusCode c' = StatusCode c \<and> Body (Response c') = Body (Response c)"
    by blast
  moreover have "\<exists>r. \<forall>rest final.
        run_body (simple_request config exposeHeaders originSet allowedOrigin nxt' @ rest) final c0 = r"
    by (simp add: simple_request_then_anything)
  ultimately show ?thesis by blast
qed

theorem preflight_path_unreachable_witness:
  "\<exists>c'. (\<forall>nxt. CORSWithConfig (config_with_origins [''https://a.example'']) nxt
                  (request_with OPTIONS [(''Origin'', ''https://a.example'')]) = nxt c')
        \<and> StatusCode c' = 200 \<and> Body (Response c') = None"
  using preflight_path_unreachable
    [of "config_with_origins [''https://a.example'']"
        "request_with OPTIONS [(''Origin'', ''https://a.example'')]", THEN conjunct1]
  by (simp add: request_with_def)

subsection \<open>Credentials\<close>

text \<open>
  C9, as the claim states it, at a configuration whose only allowed origin is the
  empty string and a request whose Origin header is present with the empty value:
  the request is not skipped, its Origin value equals a configured origin and
  credentials are allowed, yet the response reaches the application handler without
  an Access-Control-Allow-Credentials header.
\<close>

theorem credentials_empty_origin_counterexample:
  "Skipper (with_defaults ((config_with_origins [[]])\<lparr>AllowCredentials := True\<rparr>))
     = Some defaultSkipper
   \<and> \<not> defaultSkipper (request_with GET [(''Origin'', [])])
   \<and> Header_Contains (Request_Header (Request (request_with GET [(''Origin'', [])]))) ''Origin''
   \<and> Header_Get (Request_Header (Request (request_with GET [(''Origin'', [])]))) ''Origin''
       \<in> set (AllowOrigins (with_defaults ((config_with_origins [[]])\<lparr>AllowCredentials := True\<rparr>)))
   \<and> AllowCredentials ((config_with_origins [[]])\<lparr>AllowCredentials := True\<rparr>)
   \<and> response_body
        (CORSWithConfig ((config_with_origins [[]])\<lparr>AllowCredentials := True\<rparr>) app_handler
           (request_with GET [(''Origin'', [])])) = Some ''app''
   \<and> response_header
        (CORSWithConfig ((config_with_origins [[]])\<lparr>AllowCredentials := True\<rparr>) app_handler
           (request_with GET [(''Origin'', [])])) ''Access-Control-Allow-Credentials'' = []
   \<and> response_header
        (CORSWithConfig ((config_with_origins [[]])\<lparr>AllowCredentials := True\<rparr>) app_handler
           (request_with GET [(''Origin'', [])])) ''Access-Control-Allow-Credentials'' \<noteq> [''true'']"
  by (simp add: CORSWithConfig_hands_on handed_on_def Let_def Skipper_with_defaults
      with_defaults_fields simple_response_def example_inputs header_ops header_names)

text \<open>
  C9, amended. For a request that is not skipped, whose Origin header is present,
  and for which the first configured origin that is the wildcard or equals the
  Origin value exists and is not the empty string: the gas calls the next handler on
  a context whose Access-Control-Allow-Credentials header is exactly the one value
  true when credentials are allowed, and is as it was received when they are not.
\<close>

theorem credentials_header_when_matched:
  assumes "Skipper (with_defaults cfg) = Some skip" and "\<not> skip c"
    and "Header_Contains (Request_Header (Request c)) ''Origin''"
    and "find (\<lambda>e. e = ''*'' \<or> e = Header_Get (Request_Header (Request c)) ''Origin'')
           (AllowOrigins (with_defaults cfg)) = Some m"
    and "m \<noteq> []"
  shows "\<exists>c'. (\<forall>nxt. CORSWithConfig cfg nxt c = nxt c')
            \<and> res_Header c' ''Access-Control-Allow-Credentials'' =
                (if AllowCredentials cfg then [''true'']
                 else res_Header c ''Access-Control-Allow-Credentials'')"
proof -
  have "\<forall>nxt. CORSWithConfig cfg nxt c = nxt (handed_on cfg c)"
    by (simp add: CORSWithConfig_hands_on)
  moreover have "res_Header (handed_on cfg c) ''Access-Control-Allow-Credentials'' =
      (if AllowCredentials cfg then [''true'']
       else res_Header c ''Access-Control-Allow-Credentials'')"
    using assms
    by (simp add: handed_on_not_skipped simple_response_AllowCredentials
        check_allowed_origins_find HeaderOrigin_def with_defaults_fields(4))
  ultimately show ?thesis by blast
qed

theorem credentials_header_when_matched_witness:
  "Skipper (with_defaults ((config_with_origins [''https://a.example''])\<lparr>AllowCredentials := True\<rparr>))
     = Some defaultSkipper
   \<and> \<not> defaultSkipper (request_with GET [(''Origin'', ''https://a.example'')])
   \<and> Header_Contains
       (Request_Header (Request (request_with GET [(''Origin'', ''https://a.example'')]))) ''Origin''
   \<and> find (\<lambda>e. e = ''*'' \<or> e = Header_Get
               (Request_Header (Request (request_with GET [(''Origin'', ''https://a.example'')])))
               ''Origin'')
        (AllowOrigins (with_defaults
           ((config_with_origins [''https://a.example''])\<lparr>AllowCredentials := True\<rparr>)))
       = Some ''https://a.example''
   \<and> (\<exists>c'. (\<forall>nxt. CORSWithConfig
                     ((config_with_origins [''https://a.example''])\<lparr>AllowCredentials := True\<rparr>) nxt
                     (request_with GET [(''Origin'', ''https://a.example'')]) = nxt c')
          \<and> res_Header c' ''Access-Control-Allow-Credentials'' = [''true''])"
  using credentials_header_when_matched
    [of "(config_with_origins [''https://a.example''])\<lparr>AllowCredentials := True\<rparr>" defaultSkipper
        "request_with GET [(''Origin'', ''https://a.example'')]" "''https://a.example''"]
  by (simp add: Skipper_with_defaults with_defaults_fields request_with_def
      config_with_origins_def Header_Get_def Header_Contains_def defaultSkipper_def)

subsection \<open>An Origin header present with the empty value\<close>

text \<open>
  C10, as the claim states it, at a configuration whose allowed origins are the
  empty string and then the wildcard, and a request whose Origin header is present
  with the empty value: the request is not skipped and the configuration contains
  the wildcard, yet the response reaches the application handler without an
  Access-Control-Allow-Origin header.
\<close>

theorem empty_origin_wildcard_counterexample:
  "Skipper (with_defaults (config_with_origins [[], ''*''])) = Some defaultSkipper
   \<and> \<not> defaultSkipper (request_with GET [(''Origin'', [])])
   \<and> Header_Contains (Request_Header (Request (request_with GET [(''Origin'', [])]))) ''Origin''
   \<and> Header_Get (Request_Header (Request (request_with GET [(''Origin'', [])]))) ''Origin'' = []
   \<and> ''*'' \<in> set (AllowOrigins (with_defaults (config_with_origins [[], ''*''])))
   \<and> response_body
        (CORSWithConfig (config_with_origins [[], ''*'']) app_handler
           (request_with GET [(''Origin'', [])])) = Some ''app''
   \<and> response_header
        (CORSWithConfig (config_with_origins [[], ''*'']) app_handler
           (request_with GET [(''Origin'', [])])) ''Access-Control-Allow-Origin'' = []
   \<and> response_header
        (CORSWithConfig (config_with_origins [[], ''*'']) app_handler
           (request_with GET [(''Origin'', [])])) ''Access-Control-Allow-Origin'' \<noteq> [''*'']"
  by (simp add: CORSWithConfig_hands_on handed_on_def Let_def Skipper_with_defaults
      with_defaults_fields simple_response_def example_inputs header_ops header_names)

text \<open>
  C10, amended. For a request that is not skipped and whose Origin header is present
  with the empty value, under a configuration whose allowed origins contain the
  wildcard with no empty string before its first occurrence: the gas calls the next
  handler on a context whose Access-Control-Allow-Origin header is exactly the
  wildcard.
\<close>

theorem empty_origin_matches_wildcard:
  assumes "Skipper (with_defaults cfg) = Some skip" and "\<not> skip c"
    and "Header_Contains (Request_Header (Request c)) ''Origin''"
    and "Header_Get (Request_Header (Request c)) ''Origin'' = []"
    and "''*'' \<in> set (AllowOrigins (with_defaults cfg))"
    and "[] \<notin> set (takeWhile (\<lambda>e. e \<noteq> ''*'') (AllowOrigins (with_defaults cfg)))"
  shows "\<exists>c'. (\<forall>nxt. CORSWithConfig cfg nxt c = nxt c')
            \<and> res_Header c' ''Access-Control-Allow-Origin'' = [''*'']"
proof -
  have "\<forall>nxt. CORSWithConfig cfg nxt c = nxt (handed_on cfg c)"
    by (simp add: CORSWithConfig_hands_on)
  moreover have "res_Header (handed_on cfg c) ''Access-Control-Allow-Origin'' = [''*'']"
    using assms(1-4) find_wildcard_first [OF assms(5,6)]
    by (simp add: handed_on_not_skipped simple_response_AllowOrigin
        check_allowed_origins_find HeaderOrigin_def)
  ultimately show ?thesis by blast
qed

theorem empty_origin_matches_wildcard_witness:
  "Skipper (with_defaults (config_with_origins [''https://a.example'', ''*''])) = Some defaultSkipper
   \<and> \<not> defaultSkipper (request_with GET [(''Origin'', [])])
   \<and> Header_Contains (Request_Header (Request (request_with GET [(''Origin'', [])]))) ''Origin''
   \<and> Header_Get (Request_Header (Request (request_with GET [(''Origin'', [])]))) ''Origin'' = []
   \<and> ''*'' \<in> set (AllowOrigins (with_defaults (config_with_origins [''https://a.example'', ''*''])))
   \<and> [] \<notin> set (takeWhile (\<lambda>e. e \<noteq> ''*'')
                  (AllowOrigins (with_defaults (config_with_origins [''https://a.example'', ''*'']))))
   \<and> (\<exists>c'. (\<forall>nxt. CORSWithConfig (config_with_origins [''https://a.example'', ''*'']) nxt
                     (request_with GET [(''Origin'', [])]) = nxt c')
          \<and> res_Header c' ''Access-Control-Allow-Origin'' = [''*''])"
  using empty_origin_matches_wildcard
    [of "config_with_origins [''https://a.example'', ''*'']" defaultSkipper
        "request_with GET [(''Origin'', [])]"]
  by (simp add: Skipper_with_defaults with_defaults_fields request_with_def
      config_with_origins_def Header_Get_def Header_Contains_def defaultSkipper_def)

subsection \<open>Preflight requests as the gas answers them\<close>

lemma max_age_header_never_set:
  "\<exists>c'. (\<forall>nxt. CORSWithConfig cfg nxt c = nxt c')
        \<and> res_Header c' ''Access-Control-Max-Age'' = res_Header c ''Access-Control-Max-Age''"
proof -
  have "\<forall>nxt. CORSWithConfig cfg nxt c = nxt (handed_on cfg c)"
    by (simp add: CORSWithConfig_hands_on)
  moreover have "res_Header (handed_on cfg c) ''Access-Control-Max-Age'' =
      res_Header c ''Access-Control-Max-Age''"
    by (simp add: handed_on_def Let_def simple_response_other split: option.split)
  ultimately show ?thesis by blast
qed

text \<open>
  C1, on the code. The configuration allows the origin https://a.example and leaves
  the allowed headers empty; the request is an OPTIONS request from that origin that
  asks for the header X-Foo. The gas sets Vary and Access-Control-Allow-Origin and
  calls the application handler, which writes its body; the status code stays 200,
  and neither Access-Control-Allow-Methods nor Access-Control-Allow-Headers is set.
\<close>

theorem matched_preflight_reaches_next_handler:
  "Method (Request (request_with OPTIONS
       [(''Origin'', ''https://a.example''), (''Access-Control-Request-Headers'', ''X-Foo'')]))
     = ''OPTIONS''
   \<and> response_status
        (CORSWithConfig (config_with_origins [''https://a.example'']) app_handler
           (request_with OPTIONS
              [(''Origin'', ''https://a.example''), (''Access-Control-Request-Headers'', ''X-Foo'')]))
       = Some 200
   \<and> response_body
        (CORSWithConfig (config_with_origins [''https://a.example'']) app_handler
           (request_with OPTIONS
              [(''Origin'', ''https://a.example''), (''Access-Control-Request-Headers'', ''X-Foo'')]))
       = Some ''app''
   \<and> response_header
        (CORSWithConfig (config_with_origins [''https://a.example'']) app_handler
           (request_with OPTIONS
              [(''Origin'', ''https://a.example''), (''Access-Control-Request-Headers'', ''X-Foo'')]))
        ''Vary'' = [''Origin'']
   \<and> response_header
        (CORSWithConfig (config_with_origins [''https://a.example'']) app_handler
           (request_with OPTIONS
              [(''Origin'', ''https://a.example''), (''Access-Control-Request-Headers'', ''X-Foo'')]))
        ''Access-Control-Allow-Origin'' = [''https://a.example'']
   \<and> response_header
        (CORSWithConfig (config_with_origins [''https://a.example'']) app_handler
           (request_with OPTIONS
              [(''Origin'', ''https://a.example''), (''Access-Control-Request-Headers'', ''X-Foo'')]))
        ''Access-Control-Allow-Methods'' = []
   \<and> response_header
        (CORSWithConfig (config_with_origins [''https://a.example'']) app_handler
           (request_with OPTIONS
              [(''Origin'', ''https://a.example''), (''Access-Control-Request-Headers'', ''X-Foo'')]))
        ''Access-Control-Allow-Headers'' = []"
  by (simp add: CORSWithConfig_hands_on handed_on_def Let_def Skipper_with_defaults
      with_defaults_fields simple_response_def example_inputs header_ops header_names
      OPTIONS_def)

text \<open>
  C8, on the code. The configuration allows every origin and sets the maximum age
  to 600; the request is an OPTIONS request that carries an Origin header. The gas
  calls the application handler and the response has no Access-Control-Max-Age
  header.
\<close>

theorem matched_preflight_without_max_age:
  "MaxAge ((config_with_origins [''*''])\<lparr>MaxAge := 600\<rparr>) = 600
   \<and> Method (Request (request_with OPTIONS [(''Origin'', ''https://a.example'')])) = ''OPTIONS''
   \<and> response_body
        (CORSWithConfig ((config_with_origins [''*''])\<lparr>MaxAge := 600\<rparr>) app_handler
           (request_with OPTIONS [(''Origin'', ''https://a.example'')])) = Some ''app''
   \<and> response_header
        (CORSWithConfig ((config_with_origins [''*''])\<lparr>MaxAge := 600\<rparr>) app_handler
           (request_with OPTIONS [(''Origin'', ''https://a.example'')]))
        ''Access-Control-Allow-Origin'' = [''*'']
   \<and> response_header
        (CORSWithConfig ((config_with_origins [''*''])\<lparr>MaxAge := 600\<rparr>) app_handler
           (request_with OPTIONS [(''Origin'', ''https://a.example'')]))
        ''Access-Control-Max-Age'' = []"
  by (simp add: CORSWithConfig_hands_on handed_on_def Let_def Skipper_with_defaults
      with_defaults_fields simple_response_def example_inputs header_ops header_names
      OPTIONS_def)

end
